theory Spec2Isabelle
  imports Main "HOL-Library.List_Lexorder" "HOL-Library.Char_ord"
begin

section \<open>Python strings\<close>

text \<open>
  The module is Python 2 (\<^verbatim>\<open>basestring\<close>): option values, header values and method
  tokens are byte strings, modelled as \<^typ>\<open>string\<close>. The string methods used by
  \<^verbatim>\<open>cors.py\<close> are \<^verbatim>\<open>strip\<close>, \<^verbatim>\<open>lower\<close>, \<^verbatim>\<open>upper\<close>, \<^verbatim>\<open>split\<close> (with and
  without a separator) and \<^verbatim>\<open>join\<close>; each is written out below with the behaviour
  it has on byte strings in the C locale.
\<close>

definition isspace :: "char \<Rightarrow> bool" where
  \<comment> \<open>space, \<^verbatim>\<open>\t \n \v \f \r\<close>\<close>
  "isspace c = (let n = (of_char c :: nat) in n = 32 \<or> (9 \<le> n \<and> n \<le> 13))"

definition lower_char :: "char \<Rightarrow> char" where
  "lower_char c =
     (let n = (of_char c :: nat) in if 65 \<le> n \<and> n \<le> 90 then char_of (n + 32) else c)"

definition upper_char :: "char \<Rightarrow> char" where
  "upper_char c =
     (let n = (of_char c :: nat) in if 97 \<le> n \<and> n \<le> 122 then char_of (n - 32) else c)"

definition lower :: "string \<Rightarrow> string" where
  "lower s = map lower_char s"

definition upper :: "string \<Rightarrow> string" where
  "upper s = map upper_char s"

definition strip :: "string \<Rightarrow> string" where
  \<comment> \<open>\<^verbatim>\<open>s.strip()\<close>: whitespace removed at both ends\<close>
  "strip s = rev (dropWhile isspace (rev (dropWhile isspace s)))"

fun split_ws_from :: "string \<Rightarrow> string \<Rightarrow> string list" where
  \<comment> \<open>scan of \<^verbatim>\<open>s.split()\<close>; the first argument is the current token, reversed\<close>
  "split_ws_from cur [] = (if cur = [] then [] else [rev cur])"
| "split_ws_from cur (c # cs) =
     (if isspace c
      then (if cur = [] then split_ws_from [] cs else rev cur # split_ws_from [] cs)
      else split_ws_from (c # cur) cs)"

definition split_ws :: "string \<Rightarrow> string list" where
  \<comment> \<open>\<^verbatim>\<open>s.split()\<close>: runs of whitespace separate, no empty token\<close>
  "split_ws s = split_ws_from [] s"

fun split_sep :: "char \<Rightarrow> string \<Rightarrow> string list" where
  \<comment> \<open>\<^verbatim>\<open>s.split(c)\<close>: every occurrence separates, empty tokens are kept\<close>
  "split_sep sep [] = [[]]"
| "split_sep sep (c # cs) =
     (if c = sep then [] # split_sep sep cs
      else (case split_sep sep cs of
              [] \<Rightarrow> [[c]]
            | t # ts \<Rightarrow> (c # t) # ts))"

fun join :: "string \<Rightarrow> string list \<Rightarrow> string" where
  \<comment> \<open>\<^verbatim>\<open>sep.join(xs)\<close>\<close>
  "join sep [] = []"
| "join sep [x] = x"
| "join sep (x # y # ys) = x @ sep @ join sep (y # ys)"

section \<open>Errors and the boolean coercion\<close>

datatype error = ValueError string | KeyError string

definition TRUE_STRINGS :: "string list" where
  "TRUE_STRINGS = [''1'', ''t'', ''true'', ''on'', ''y'', ''yes'']"

definition FALSE_STRINGS :: "string list" where
  "FALSE_STRINGS = [''0'', ''f'', ''false'', ''off'', ''n'', ''no'']"

definition bool_from_string :: "string \<Rightarrow> bool \<Rightarrow> error + bool" where
  \<comment> \<open>the \<^verbatim>\<open>ValueError\<close> carries the offending value, from which the message is formatted\<close>
  "bool_from_string subject strict =
     (let lowered = lower (strip subject) in
      if lowered \<in> set TRUE_STRINGS then Inr True
      else if lowered \<in> set FALSE_STRINGS then Inr False
      else if strict then Inl (ValueError subject)
      else Inr False)"

section \<open>Requests, responses and the middleware object\<close>

record request =
  headers :: "string \<rightharpoonup> string"
  req_method :: string

record response =
  status :: nat
  resp_headers :: "string \<rightharpoonup> string"
  body :: string
  resp_request :: "request option"

record CorsMiddleware =
  allowed_origins :: "string set"
  allowed_methods :: "string set"
  hijack_options :: bool
  cors_headers :: "string \<rightharpoonup> string"

text \<open>
  The two response objects that \<^verbatim>\<open>process_request\<close> constructs come from webob:
  \<^verbatim>\<open>webob.Response()\<close> is an empty \<^verbatim>\<open>200 OK\<close> with webob's default content headers
  and no originating request; \<^verbatim>\<open>webob.exc.HTTPUnauthorized()\<close> is the same with status
  401 (its error page is rendered by webob when the response is sent).
\<close>

definition webob_default_headers :: "string \<rightharpoonup> string" where
  "webob_default_headers =
     map_of [(''Content-Type'', ''text/html; charset=UTF-8''), (''Content-Length'', ''0'')]"

definition webob_Response :: response where
  "webob_Response =
     \<lparr>status = 200, resp_headers = webob_default_headers, body = [], resp_request = None\<rparr>"

definition HTTPUnauthorized :: response where
  "HTTPUnauthorized =
     \<lparr>status = 401, resp_headers = webob_default_headers, body = [], resp_request = None\<rparr>"

section \<open>Configuration\<close>

definition DEFAULT_CONFIGURATION :: "string \<rightharpoonup> string" where
  "DEFAULT_CONFIGURATION = map_of
     [(''allow_origins'', ''*''),
      (''allow_methods'', ''GET, POST, PUT, DELETE, OPTIONS''),
      (''allow_headers'', ''Origin, Content-type, Accept, X-Auth-Token''),
      (''expose_headers'', ''etag, x-timestamp, x-trans-id, vary''),
      (''allow_credentials'', ''false''),
      (''hijack_options'', ''true''),
      (''max_age'', ''3600'')]"

definition getitem :: "(string \<rightharpoonup> string) \<Rightarrow> string \<Rightarrow> error + string" where
  \<comment> \<open>\<^verbatim>\<open>conf[k]\<close>\<close>
  "getitem conf k = (case conf k of None \<Rightarrow> Inl (KeyError k) | Some v \<Rightarrow> Inr v)"

definition bind :: "error + 'a \<Rightarrow> ('a \<Rightarrow> error + 'b) \<Rightarrow> error + 'b" where
  \<comment> \<open>an exception raised by a step leaves the constructor\<close>
  "bind m f = (case m of Inl e \<Rightarrow> Inl e | Inr v \<Rightarrow> f v)"

text \<open>
  \<^verbatim>\<open>' '.join(self.allowed_origins)\<close> iterates over a Python set, whose order the language
  leaves open. The order is a parameter of the constructor: \<open>iter S\<close> is the sequence in
  which the runtime yields the elements of \<open>S\<close>. A runtime's iteration yields every
  element exactly once.
\<close>

definition set_iteration :: "(string set \<Rightarrow> string list) \<Rightarrow> bool" where
  "set_iteration iter \<longleftrightarrow> (\<forall>S. finite S \<longrightarrow> set (iter S) = S \<and> distinct (iter S))"

definition init :: "(string set \<Rightarrow> string list) \<Rightarrow> (string \<rightharpoonup> string) \<Rightarrow> error + CorsMiddleware" where
  \<comment> \<open>\<^verbatim>\<open>CorsMiddleware.__init__(**kwargs)\<close>; the closing call of the base class constructor
      only stores the wrapped application\<close>
  "init iter kwargs =
     (let conf = DEFAULT_CONFIGURATION ++ kwargs in
      bind (getitem conf ''allow_origins'') (\<lambda>origins.
      bind (getitem conf ''allow_methods'') (\<lambda>methods.
      bind (getitem conf ''hijack_options'') (\<lambda>hijack.
      bind (bool_from_string hijack False) (\<lambda>hijack_flag.
      let allowed = set (split_ws origins) in
      bind (getitem conf ''max_age'') (\<lambda>max_age.
      bind (getitem conf ''allow_methods'') (\<lambda>allow_methods.
      bind (getitem conf ''allow_headers'') (\<lambda>allow_headers.
      bind (getitem conf ''expose_headers'') (\<lambda>expose_headers.
      bind (getitem conf ''allow_credentials'') (\<lambda>allow_credentials.
      Inr \<lparr>allowed_origins = allowed,
           allowed_methods = set (map (\<lambda>m. upper (strip m)) (split_sep (CHR '','') methods)),
           hijack_options = hijack_flag,
           cors_headers =
             Map.empty(''access-control-allow-origin'' \<mapsto> join '' '' (iter allowed),
                       ''access-control-max-age'' \<mapsto> max_age,
                       ''access-control-allow-methods'' \<mapsto> allow_methods,
                       ''access-control-allow-headers'' \<mapsto> allow_headers,
                       ''access-control-expose-headers'' \<mapsto> expose_headers,
                       ''access-control-allow-credentials'' \<mapsto> allow_credentials)\<rparr>))))))))))"

section \<open>The two phases\<close>

definition process_response :: "CorsMiddleware \<Rightarrow> request \<Rightarrow> response \<Rightarrow> response" where
  \<comment> \<open>\<^verbatim>\<open>response.headers.update(self.cors_headers)\<close> sets each name of \<open>cors_headers\<close>\<close>
  "process_response self req resp =
     (if (case resp_request resp of None \<Rightarrow> True | Some r \<Rightarrow> headers r ''Origin'' \<noteq> None)
      then resp\<lparr>resp_headers := resp_headers resp ++ cors_headers self\<rparr>
      else resp)"

definition process_request :: "CorsMiddleware \<Rightarrow> request \<Rightarrow> response option" where
  \<comment> \<open>\<open>None\<close> is Python's \<^verbatim>\<open>None\<close>: no decision, the pipeline continues\<close>
  "process_request self req =
     (case headers req ''Origin'' of
        None \<Rightarrow> None
      | Some origin \<Rightarrow>
          if origin \<noteq> [] then
            if origin \<notin> allowed_origins self \<and> ''*'' \<notin> allowed_origins self
            then Some HTTPUnauthorized
            else if req_method req \<notin> allowed_methods self
            then Some HTTPUnauthorized
            else if hijack_options self \<and> req_method req = ''OPTIONS''
            then Some (process_response self req webob_Response)
            else None
          else None)"

section \<open>The specification's vocabulary\<close>

text \<open>
  The specification describes the merged configuration in its own words: every recognised
  option has a documented default, and a supplied value replaces the default as a whole.
  \<open>merged\<close> follows that wording; it is compared with the constructor's
  \<^verbatim>\<open>DEFAULT_CONFIGURATION.copy()\<close> / \<^verbatim>\<open>conf.update(kwargs)\<close> below.
\<close>

definition option_names :: "string list" where
  "option_names = [''allow_origins'', ''allow_methods'', ''allow_headers'', ''expose_headers'',
     ''allow_credentials'', ''hijack_options'', ''max_age'']"

definition default_value :: "string \<Rightarrow> string" where
  "default_value k =
     (if k = ''allow_origins'' then ''*''
      else if k = ''allow_methods'' then ''GET, POST, PUT, DELETE, OPTIONS''
      else if k = ''allow_headers'' then ''Origin, Content-type, Accept, X-Auth-Token''
      else if k = ''expose_headers'' then ''etag, x-timestamp, x-trans-id, vary''
      else if k = ''allow_credentials'' then ''false''
      else if k = ''hijack_options'' then ''true''
      else if k = ''max_age'' then ''3600''
      else [])"

definition merged :: "(string \<rightharpoonup> string) \<Rightarrow> string \<Rightarrow> string" where
  "merged kwargs k = (case kwargs k of Some v \<Rightarrow> v | None \<Rightarrow> default_value k)"

definition cors_header_names :: "string list" where
  "cors_header_names =
     [''access-control-allow-origin'', ''access-control-max-age'',
      ''access-control-allow-methods'', ''access-control-allow-headers'',
      ''access-control-expose-headers'', ''access-control-allow-credentials'']"

section \<open>Concrete runtimes, configurations and requests\<close>

definition sorted_iteration :: "string set \<Rightarrow> string list" where
  "sorted_iteration S = sorted_list_of_set S"

definition reversed_iteration :: "string set \<Rightarrow> string list" where
  "reversed_iteration S = rev (sorted_list_of_set S)"

definition scenario_kwargs :: "string \<rightharpoonup> string" where
  "scenario_kwargs = map_of
     [(''allow_origins'', ''http://a.example http://b.example''),
      (''allow_methods'', ''GET,POST'')]"

definition scenario_policy :: "string \<Rightarrow> CorsMiddleware" where
  \<comment> \<open>the object built from \<open>scenario_kwargs\<close>, given the joined origin header\<close>
  "scenario_policy joined =
     \<lparr>allowed_origins = {''http://a.example'', ''http://b.example''},
      allowed_methods = {''GET'', ''POST''},
      hijack_options = True,
      cors_headers =
        Map.empty(''access-control-allow-origin'' \<mapsto> joined,
                  ''access-control-max-age'' \<mapsto> ''3600'',
                  ''access-control-allow-methods'' \<mapsto> ''GET,POST'',
                  ''access-control-allow-headers'' \<mapsto> ''Origin, Content-type, Accept, X-Auth-Token'',
                  ''access-control-expose-headers'' \<mapsto> ''etag, x-timestamp, x-trans-id, vary'',
                  ''access-control-allow-credentials'' \<mapsto> ''false'')\<rparr>"

definition default_policy :: CorsMiddleware where
  \<comment> \<open>the object built from no options at all\<close>
  "default_policy =
     \<lparr>allowed_origins = {''*''},
      allowed_methods = {''GET'', ''POST'', ''PUT'', ''DELETE'', ''OPTIONS''},
      hijack_options = True,
      cors_headers =
        Map.empty(''access-control-allow-origin'' \<mapsto> ''*'',
                  ''access-control-max-age'' \<mapsto> ''3600'',
                  ''access-control-allow-methods'' \<mapsto> ''GET, POST, PUT, DELETE, OPTIONS'',
                  ''access-control-allow-headers'' \<mapsto> ''Origin, Content-type, Accept, X-Auth-Token'',
                  ''access-control-expose-headers'' \<mapsto> ''etag, x-timestamp, x-trans-id, vary'',
                  ''access-control-allow-credentials'' \<mapsto> ''false'')\<rparr>"

definition origin_request :: "string \<Rightarrow> string \<Rightarrow> request" where
  \<comment> \<open>a request with the given \<^verbatim>\<open>Origin\<close> header value and method\<close>
  "origin_request origin m = \<lparr>headers = Map.empty(''Origin'' \<mapsto> origin), req_method = m\<rparr>"

definition plain_request :: "string \<Rightarrow> request" where
  \<comment> \<open>a request without an \<^verbatim>\<open>Origin\<close> header\<close>
  "plain_request m = \<lparr>headers = Map.empty(''Host'' \<mapsto> ''api.example''), req_method = m\<rparr>"

definition app_response :: "request option \<Rightarrow> response" where
  \<comment> \<open>a downstream response that already sets one of the CORS header names\<close>
  "app_response r =
     \<lparr>status = 200,
      resp_headers = Map.empty(''Content-Type'' \<mapsto> ''application/json'',
                               ''access-control-max-age'' \<mapsto> ''60''),
      body = ''{}'',
      resp_request = r\<rparr>"

definition untidy_kwargs :: "string \<rightharpoonup> string" where
  \<comment> \<open>options written carelessly: a tab and runs of blanks between origins, one origin
      twice, methods in mixed case with blanks around them, one header option overridden\<close>
  "untidy_kwargs = map_of
     [(''allow_origins'',
         ''  http://b.example'' @ [CHR 0x09] @ ''http://a.example   http://b.example ''),
      (''allow_methods'', '' get ,Post''),
      (''max_age'', ''60'')]"

section \<open>Facts about the string operations\<close>

lemma upper_char_idem: "upper_char (upper_char c) = upper_char c"
  by (auto simp: upper_char_def Let_def)

lemma upper_idem: "upper (upper s) = upper s"
  by (simp add: upper_def upper_char_idem)

lemma split_ws_from_tokens:
  "t \<in> set (split_ws_from cur s) \<Longrightarrow> t \<noteq> []"
  by (induction s arbitrary: cur) (auto split: if_splits)

lemma split_ws_no_empty_token: "[] \<notin> set (split_ws s)"
  using split_ws_from_tokens [of "[]" "[]" s] by (auto simp: split_ws_def)

lemma split_ws_from_no_space:
  "\<forall>c \<in> set cur. \<not> isspace c \<Longrightarrow>
     \<forall>t \<in> set (split_ws_from cur s). \<forall>c \<in> set t. \<not> isspace c"
proof (induction s arbitrary: cur)
  case Nil
  then show ?case by simp
next
  case (Cons a s)
  show ?case
  proof (cases "isspace a")
    case True
    have "\<forall>t \<in> set (split_ws_from [] s). \<forall>c \<in> set t. \<not> isspace c"
      by (rule Cons.IH) simp
    with True Cons.prems show ?thesis by simp
  next
    case False
    with Cons.prems have "\<forall>c \<in> set (a # cur). \<not> isspace c" by simp
    then have "\<forall>t \<in> set (split_ws_from (a # cur) s). \<forall>c \<in> set t. \<not> isspace c"
      by (rule Cons.IH)
    with False show ?thesis by simp
  qed
qed

lemma split_ws_no_space: "t \<in> set (split_ws s) \<Longrightarrow> c \<in> set t \<Longrightarrow> \<not> isspace c"
  using split_ws_from_no_space [of "[]" s] by (simp add: split_ws_def)

lemma split_ws_from_concat:
  "concat (split_ws_from cur s) = rev cur @ filter (\<lambda>c. \<not> isspace c) s"
  by (induction s arbitrary: cur) auto

lemma split_ws_concat: "concat (split_ws s) = filter (\<lambda>c. \<not> isspace c) s"
  by (simp add: split_ws_def split_ws_from_concat)

section \<open>Facts about the constructor\<close>

lemma conf_lookup:
  "(DEFAULT_CONFIGURATION ++ kwargs) k =
     (case kwargs k of Some v \<Rightarrow> Some v | None \<Rightarrow> DEFAULT_CONFIGURATION k)"
  by (simp add: map_add_def)

lemma default_lookup:
  "k \<in> set option_names \<Longrightarrow> DEFAULT_CONFIGURATION k = Some (default_value k)"
  by (auto simp: option_names_def DEFAULT_CONFIGURATION_def default_value_def)

lemma getitem_conf:
  "k \<in> set option_names \<Longrightarrow> getitem (DEFAULT_CONFIGURATION ++ kwargs) k = Inr (merged kwargs k)"
  by (simp add: getitem_def conf_lookup merged_def default_lookup split: option.splits)

lemma bool_from_string_nonstrict:
  "bool_from_string s False = Inr (lower (strip s) \<in> set TRUE_STRINGS)"
  by (simp add: bool_from_string_def Let_def)

lemma init_eq:
  "init iter kwargs =
     Inr \<lparr>allowed_origins = set (split_ws (merged kwargs ''allow_origins'')),
          allowed_methods =
            set (map (\<lambda>m. upper (strip m)) (split_sep (CHR '','') (merged kwargs ''allow_methods''))),
          hijack_options = (lower (strip (merged kwargs ''hijack_options'')) \<in> set TRUE_STRINGS),
          cors_headers =
            Map.empty(''access-control-allow-origin'' \<mapsto>
                        join '' '' (iter (set (split_ws (merged kwargs ''allow_origins'')))),
                      ''access-control-max-age'' \<mapsto> merged kwargs ''max_age'',
                      ''access-control-allow-methods'' \<mapsto> merged kwargs ''allow_methods'',
                      ''access-control-allow-headers'' \<mapsto> merged kwargs ''allow_headers'',
                      ''access-control-expose-headers'' \<mapsto> merged kwargs ''expose_headers'',
                      ''access-control-allow-credentials'' \<mapsto> merged kwargs ''allow_credentials'')\<rparr>"
  by (simp add: init_def Let_def getitem_conf option_names_def bind_def bool_from_string_nonstrict)

lemma set_iteration_sorted: "set_iteration sorted_iteration"
  by (simp add: set_iteration_def sorted_iteration_def)

lemma set_iteration_reversed: "set_iteration reversed_iteration"
  by (simp add: set_iteration_def reversed_iteration_def)

lemma scenario_origins:
  "split_ws ''http://a.example http://b.example'' = [''http://a.example'', ''http://b.example'']"
  by code_simp

lemma upper_strip_tokens:
  "upper (strip ''GET'') = ''GET''"
  "upper (strip ''POST'') = ''POST''"
  "upper (strip '' POST'') = ''POST''"
  "upper (strip '' PUT'') = ''PUT''"
  "upper (strip '' DELETE'') = ''DELETE''"
  "upper (strip '' OPTIONS'') = ''OPTIONS''"
  by code_simp+

lemma scenario_sorted:
  "sorted_list_of_set {''http://a.example'', ''http://b.example''}
     = [''http://a.example'', ''http://b.example'']"
proof -
  have "sorted_list_of_set (set [''http://a.example'', ''http://b.example''])
          = [''http://a.example'', ''http://b.example'']"
    by code_simp
  then show ?thesis by simp
qed

lemma true_is_true: "lower (strip ''true'') \<in> set TRUE_STRINGS"
  by code_simp

lemma init_scenario_sorted:
  "init sorted_iteration scenario_kwargs
     = Inr (scenario_policy ''http://a.example http://b.example'')"
  by (simp add: init_eq merged_def scenario_kwargs_def default_value_def scenario_policy_def
      scenario_origins upper_strip_tokens scenario_sorted sorted_iteration_def true_is_true)

lemma init_scenario_reversed:
  "init reversed_iteration scenario_kwargs
     = Inr (scenario_policy ''http://b.example http://a.example'')"
  by (simp add: init_eq merged_def scenario_kwargs_def default_value_def scenario_policy_def
      scenario_origins upper_strip_tokens scenario_sorted reversed_iteration_def true_is_true)

lemma default_origins: "split_ws ''*'' = [''*'']"
  by code_simp

lemma init_default: "init sorted_iteration Map.empty = Inr default_policy"
  by (simp add: init_eq merged_def default_value_def default_policy_def
      default_origins upper_strip_tokens sorted_iteration_def true_is_true)

lemma init_total: "\<exists>self. init iter kwargs = Inr self"
  by (simp add: init_eq)

lemma allowed_origins_of_init:
  "init iter kwargs = Inr self \<Longrightarrow>
     allowed_origins self = set (split_ws (merged kwargs ''allow_origins''))"
  by (auto simp: init_eq)

lemma allowed_methods_of_init:
  "init iter kwargs = Inr self \<Longrightarrow>
     allowed_methods self =
       (\<lambda>t. upper (strip t)) ` set (split_sep (CHR '','') (merged kwargs ''allow_methods''))"
  by (auto simp: init_eq)

lemma allowed_methods_upper:
  "init iter kwargs = Inr self \<Longrightarrow> m \<in> allowed_methods self \<Longrightarrow> upper m = m"
  by (auto simp: allowed_methods_of_init upper_idem)

lemma two_element_orders:
  assumes "set xs = {a, b}" "distinct xs" "a \<noteq> b"
  shows "xs = [a, b] \<or> xs = [b, a]"
proof -
  have "length xs = card {a, b}"
    using assms(1,2) distinct_card by fastforce
  with assms(3) have "length xs = 2" by simp
  then obtain x y where xy: "xs = [x, y]"
    by (cases xs; cases "tl xs") auto
  with assms show ?thesis by (auto simp: doubleton_eq_iff)
qed

lemma coercion_examples:
  "lower (strip '' YeS '') = ''yes''"
  "lower (strip ''Off'') = ''off''"
  "lower (strip ''maybe'') = ''maybe''"
  by code_simp+

lemma upper_get: "upper ''get'' = ''GET''"
  by code_simp

section \<open>The response phase\<close>

lemma cors_headers_of_init:
  assumes "init iter kwargs = Inr self"
  shows "cors_headers self =
     Map.empty(''access-control-allow-origin'' \<mapsto> join '' '' (iter (allowed_origins self)),
               ''access-control-max-age'' \<mapsto> merged kwargs ''max_age'',
               ''access-control-allow-methods'' \<mapsto> merged kwargs ''allow_methods'',
               ''access-control-allow-headers'' \<mapsto> merged kwargs ''allow_headers'',
               ''access-control-expose-headers'' \<mapsto> merged kwargs ''expose_headers'',
               ''access-control-allow-credentials'' \<mapsto> merged kwargs ''allow_credentials'')"
  using assms by (auto simp: init_eq)

lemma update_twice: "m ++ c ++ c = m ++ c"
  by (rule ext) (simp add: map_add_def split: option.splits)

lemma dom_cors_headers:
  assumes "init iter kwargs = Inr self"
  shows "dom (cors_headers self) = set cors_header_names"
  by (auto simp: cors_headers_of_init [OF assms] cors_header_names_def)

text \<open>
  Claim C3. A request without an \<^verbatim>\<open>Origin\<close> header is passed on by
  \<^verbatim>\<open>process_request\<close> (the result is \<^verbatim>\<open>None\<close>), whatever its method and whatever
  the middleware object holds.
\<close>

theorem process_request_without_origin:
  "headers req ''Origin'' = None \<Longrightarrow> process_request self req = None"
  by (simp add: process_request_def)

theorem process_request_without_origin_witness:
  "headers (plain_request ''DELETE'') ''Origin'' = None
   \<and> process_request (scenario_policy ''http://a.example http://b.example'')
        (plain_request ''DELETE'') = None"
proof -
  have h: "headers (plain_request ''DELETE'') ''Origin'' = None"
    by (simp add: plain_request_def)
  from process_request_without_origin [OF h] h show ?thesis by simp
qed

text \<open>
  Claim C4. \<^verbatim>\<open>process_response\<close> sets the six precomputed CORS headers, overwriting
  values already there, exactly when the response has no originating request or its
  originating request has an \<^verbatim>\<open>Origin\<close> header: then each of the six names carries
  the precomputed value, every other header, the status, the body and the back-reference
  are as before. When the originating request is known and has no \<^verbatim>\<open>Origin\<close> header
  the response comes back unchanged.
\<close>

theorem process_response_injects_exactly_when:
  assumes "init iter kwargs = Inr self"
  shows "(if resp_request resp = None
             \<or> (\<exists>r. resp_request resp = Some r \<and> headers r ''Origin'' \<noteq> None)
          then (\<forall>k. resp_headers (process_response self req resp) k =
                     (if k \<in> set cors_header_names then cors_headers self k
                      else resp_headers resp k))
               \<and> (\<forall>k \<in> set cors_header_names. cors_headers self k \<noteq> None)
               \<and> status (process_response self req resp) = status resp
               \<and> body (process_response self req resp) = body resp
               \<and> resp_request (process_response self req resp) = resp_request resp
          else process_response self req resp = resp)"
proof -
  have d: "dom (cors_headers self) = set cors_header_names"
    by (rule dom_cors_headers [OF assms])
  have n: "(cors_headers self k = None) = (k \<notin> set cors_header_names)" for k
    unfolding d [symmetric] by (simp add: domIff)
  have h: "(resp_headers resp ++ cors_headers self) k =
        (if k \<in> set cors_header_names then cors_headers self k else resp_headers resp k)" for k
    using n [of k] by (cases "cors_headers self k") (simp_all add: map_add_def)
  have s: "\<forall>k \<in> set cors_header_names. cors_headers self k \<noteq> None"
    using n by simp
  show ?thesis
  proof (cases "resp_request resp = None
             \<or> (\<exists>r. resp_request resp = Some r \<and> headers r ''Origin'' \<noteq> None)")
    case True
    then have e: "process_response self req resp
                 = resp\<lparr>resp_headers := resp_headers resp ++ cors_headers self\<rparr>"
      by (auto simp: process_response_def)
    show ?thesis
      by (subst if_P [OF True]) (simp add: e h s)
  next
    case False
    then have e: "process_response self req resp = resp"
      by (auto simp: process_response_def split: option.splits)
    show ?thesis
      by (subst if_not_P [OF False]) (rule e)
  qed
qed

theorem process_response_injects_exactly_when_witness:
  "init sorted_iteration scenario_kwargs
     = Inr (scenario_policy ''http://a.example http://b.example'')
   \<and> resp_headers (process_response (scenario_policy ''http://a.example http://b.example'')
        (plain_request ''GET'') (app_response None)) ''access-control-max-age'' = Some ''3600''
   \<and> resp_headers (process_response (scenario_policy ''http://a.example http://b.example'')
        (plain_request ''GET'') (app_response None)) ''Content-Type'' = Some ''application/json''
   \<and> resp_headers (process_response (scenario_policy ''http://a.example http://b.example'')
        (plain_request ''GET'') (app_response (Some (origin_request ''http://evil.example'' ''GET''))))
        ''access-control-allow-origin'' = Some ''http://a.example http://b.example''
   \<and> process_response (scenario_policy ''http://a.example http://b.example'')
        (origin_request ''http://a.example'' ''GET'') (app_response (Some (plain_request ''GET'')))
      = app_response (Some (plain_request ''GET''))"
  using
    process_response_injects_exactly_when [OF init_scenario_sorted,
      of "app_response None" "plain_request ''GET''"]
    process_response_injects_exactly_when [OF init_scenario_sorted,
      of "app_response (Some (origin_request ''http://evil.example'' ''GET''))" "plain_request ''GET''"]
    process_response_injects_exactly_when [OF init_scenario_sorted,
      of "app_response (Some (plain_request ''GET''))" "origin_request ''http://a.example'' ''GET''"]
    init_scenario_sorted
  by (simp add: app_response_def plain_request_def origin_request_def cors_header_names_def
      scenario_policy_def)

text \<open>
  Claim C6. \<^verbatim>\<open>process_response\<close> is idempotent: applied to its own result it changes
  nothing, so the header values after two calls are those after one call. The injection
  sets each name to a fixed value; it does not append.
\<close>

theorem process_response_idempotent:
  "process_response self req2 (process_response self req1 resp) = process_response self req1 resp
   \<and> resp_headers (process_response self req2 (process_response self req1 resp))
       = resp_headers (process_response self req1 resp)"
  by (simp add: process_response_def update_twice split: option.splits)

text \<open>
  Claim C10. The result of \<^verbatim>\<open>process_response\<close> does not depend on its \<^verbatim>\<open>request\<close>
  argument: the decision reads \<^verbatim>\<open>response.request\<close> only.
\<close>

theorem process_response_ignores_request_argument:
  "process_response self req1 resp = process_response self req2 resp"
  by (simp add: process_response_def)

section \<open>The request phase\<close>

text \<open>
  \<^verbatim>\<open>process_request\<close> reads the header with \<^verbatim>\<open>request.headers.get('Origin')\<close> and
  guards all its checks by \<^verbatim>\<open>if origin:\<close>, so an \<^verbatim>\<open>Origin\<close> header that is present
  with an empty value is treated like an absent one. \<^verbatim>\<open>process_response\<close> tests
  \<^verbatim>\<open>'Origin' in response.request.headers\<close>, which an empty value satisfies. Below,
  ``carrying an Origin header'' means that the header is present, as in the response phase.
\<close>

text \<open>
  Claim C1, as stated, at a concrete input: the configuration lists two origins and no
  wildcard, the request carries an \<^verbatim>\<open>Origin\<close> header with the empty value, which is not
  a listed origin; the claim says rejection, the code passes the request on.
\<close>

theorem empty_origin_header_not_rejected:
  "init sorted_iteration scenario_kwargs
     = Inr (scenario_policy ''http://a.example http://b.example'')
   \<and> headers (origin_request [] ''GET'') ''Origin'' = Some []
   \<and> [] \<notin> allowed_origins (scenario_policy ''http://a.example http://b.example'')
   \<and> ''*'' \<notin> allowed_origins (scenario_policy ''http://a.example http://b.example'')
   \<and> process_request (scenario_policy ''http://a.example http://b.example'')
        (origin_request [] ''GET'') = None"
  by (simp add: init_scenario_sorted origin_request_def scenario_policy_def process_request_def)

text \<open>
  Claim C1, amended. For every request whose \<^verbatim>\<open>Origin\<close> header is present and not
  empty, \<^verbatim>\<open>process_request\<close> returns a 401 response if and only if the origin is not a
  member of \<open>allowed_origins\<close> while \<^verbatim>\<open>*\<close> is not a member either, or the method is not a
  member of \<open>allowed_methods\<close>. Both causes return the same \<open>HTTPUnauthorized\<close> response,
  and an unlisted origin is rejected whatever the method is. A request whose \<^verbatim>\<open>Origin\<close>
  header is present and empty is passed on.
\<close>

theorem process_request_rejects_iff:
  assumes "headers req ''Origin'' = Some origin"
  shows "(origin \<noteq> [] \<longrightarrow>
            ((\<exists>r. process_request self req = Some r \<and> status r = 401) \<longleftrightarrow>
               (origin \<notin> allowed_origins self \<and> ''*'' \<notin> allowed_origins self)
               \<or> req_method req \<notin> allowed_methods self)
          \<and> ((origin \<notin> allowed_origins self \<and> ''*'' \<notin> allowed_origins self)
               \<or> req_method req \<notin> allowed_methods self
              \<longrightarrow> process_request self req = Some HTTPUnauthorized))
         \<and> (origin = [] \<longrightarrow> process_request self req = None)
         \<and> status HTTPUnauthorized = 401"
  using assms
  by (auto simp: process_request_def process_response_def HTTPUnauthorized_def webob_Response_def)

theorem process_request_rejects_iff_witness:
  "process_request (scenario_policy ''http://a.example http://b.example'')
       (origin_request ''http://evil.example'' ''GET'') = Some HTTPUnauthorized
   \<and> process_request (scenario_policy ''http://a.example http://b.example'')
       (origin_request ''http://a.example'' ''DELETE'') = Some HTTPUnauthorized
   \<and> \<not> (\<exists>r. process_request (scenario_policy ''http://a.example http://b.example'')
              (origin_request ''http://b.example'' ''POST'') = Some r \<and> status r = 401)
   \<and> process_request (scenario_policy ''http://a.example http://b.example'')
       (origin_request [] ''POST'') = None"
  using
    process_request_rejects_iff [of "origin_request ''http://evil.example'' ''GET''"
      "''http://evil.example''" "scenario_policy ''http://a.example http://b.example''"]
    process_request_rejects_iff [of "origin_request ''http://a.example'' ''DELETE''"
      "''http://a.example''" "scenario_policy ''http://a.example http://b.example''"]
    process_request_rejects_iff [of "origin_request ''http://b.example'' ''POST''"
      "''http://b.example''" "scenario_policy ''http://a.example http://b.example''"]
    process_request_rejects_iff [of "origin_request [] ''POST''"
      "[]" "scenario_policy ''http://a.example http://b.example''"]
  by (simp add: origin_request_def scenario_policy_def)

text \<open>
  Claim C2, as stated, at a concrete input: default configuration (wildcard present,
  \<^verbatim>\<open>OPTIONS\<close> allowed, \<open>hijack_options\<close> true), a request with method \<^verbatim>\<open>OPTIONS\<close> and an
  \<^verbatim>\<open>Origin\<close> header with the empty value; the code passes it on instead of answering
  the preflight.
\<close>

theorem empty_origin_header_not_hijacked:
  "init sorted_iteration Map.empty = Inr default_policy
   \<and> headers (origin_request [] ''OPTIONS'') ''Origin'' = Some []
   \<and> ''*'' \<in> allowed_origins default_policy
   \<and> req_method (origin_request [] ''OPTIONS'') \<in> allowed_methods default_policy
   \<and> req_method (origin_request [] ''OPTIONS'') = ''OPTIONS''
   \<and> hijack_options default_policy
   \<and> process_request default_policy (origin_request [] ''OPTIONS'') = None"
  by (simp add: init_default origin_request_def default_policy_def process_request_def)

text \<open>
  Claim C2, amended. For every request whose \<^verbatim>\<open>Origin\<close> header is present, not empty,
  and a member of \<open>allowed_origins\<close> (or \<^verbatim>\<open>*\<close> is a member), whose method is a member
  of \<open>allowed_methods\<close> and equal to \<^verbatim>\<open>OPTIONS\<close>, with \<open>hijack_options\<close> true,
  \<^verbatim>\<open>process_request\<close> returns a fresh empty 200 response passed through
  \<^verbatim>\<open>process_response\<close>: status 200, empty body, and each of the six CORS header names
  carrying its precomputed value.
\<close>

theorem process_request_preflight:
  assumes "init iter kwargs = Inr self"
    and "headers req ''Origin'' = Some origin"
    and "origin \<noteq> []"
    and "origin \<in> allowed_origins self \<or> ''*'' \<in> allowed_origins self"
    and "req_method req \<in> allowed_methods self"
    and "req_method req = ''OPTIONS''"
    and "hijack_options self"
  shows "process_request self req = Some (process_response self req webob_Response)
         \<and> status webob_Response = 200 \<and> body webob_Response = []
         \<and> status (process_response self req webob_Response) = 200
         \<and> body (process_response self req webob_Response) = []
         \<and> (\<forall>k \<in> set cors_header_names.
               resp_headers (process_response self req webob_Response) k = cors_headers self k
               \<and> cors_headers self k \<noteq> None)"
proof -
  have d: "dom (cors_headers self) = set cors_header_names"
    by (rule dom_cors_headers [OF assms(1)])
  have n: "\<forall>k \<in> set cors_header_names. cors_headers self k \<noteq> None"
    unfolding d [symmetric] by (simp add: domIff)
  have r: "process_request self req = Some (process_response self req webob_Response)"
    using assms(2-7) by (auto simp: process_request_def)
  have p: "process_response self req webob_Response
             = webob_Response\<lparr>resp_headers := resp_headers webob_Response ++ cors_headers self\<rparr>"
    by (simp add: process_response_def webob_Response_def)
  have h: "\<forall>k \<in> set cors_header_names.
             (resp_headers webob_Response ++ cors_headers self) k = cors_headers self k"
    using n by (auto simp: map_add_def split: option.splits)
  show ?thesis
    using r n h by (simp add: p) (simp add: webob_Response_def)
qed

theorem process_request_preflight_witness:
  "process_request default_policy (origin_request ''http://x.example'' ''OPTIONS'')
     = Some (process_response default_policy (origin_request ''http://x.example'' ''OPTIONS'')
         webob_Response)
   \<and> status (process_response default_policy (origin_request ''http://x.example'' ''OPTIONS'')
         webob_Response) = 200
   \<and> resp_headers (process_response default_policy
         (origin_request ''http://x.example'' ''OPTIONS'') webob_Response)
        ''access-control-allow-origin'' = Some ''*''"
  using process_request_preflight [OF init_default,
      of "origin_request ''http://x.example'' ''OPTIONS''" "''http://x.example''"]
  by (simp add: origin_request_def default_policy_def cors_header_names_def)

text \<open>
  Claim C5, as stated, at a concrete input: default configuration (every origin allowed
  by the wildcard), method \<^verbatim>\<open>get\<close>, which is a lowercase spelling of the allowed
  \<^verbatim>\<open>GET\<close>, and an \<^verbatim>\<open>Origin\<close> header with the empty value; the code passes the
  request on instead of rejecting it.
\<close>

theorem empty_origin_header_lowercase_method_passes:
  "init sorted_iteration Map.empty = Inr default_policy
   \<and> headers (origin_request [] ''get'') ''Origin'' = Some []
   \<and> ''*'' \<in> allowed_origins default_policy
   \<and> upper (req_method (origin_request [] ''get'')) \<in> allowed_methods default_policy
   \<and> upper (req_method (origin_request [] ''get'')) \<noteq> req_method (origin_request [] ''get'')
   \<and> process_request default_policy (origin_request [] ''get'') = None"
  by (simp add: init_default origin_request_def default_policy_def process_request_def upper_get)

text \<open>
  Claim C5, amended. Every member of \<open>allowed_methods\<close> is its own uppercase form, and
  the request's method is compared as received. So for every request whose \<^verbatim>\<open>Origin\<close>
  header is present, not empty and allowed, and whose method differs from its uppercase
  form while that uppercase form is an allowed method, the method is not a member of
  \<open>allowed_methods\<close> and \<^verbatim>\<open>process_request\<close> returns the 401 response.
\<close>

theorem process_request_method_case_sensitive:
  assumes "init iter kwargs = Inr self"
    and "headers req ''Origin'' = Some origin"
    and "origin \<noteq> []"
    and "origin \<in> allowed_origins self \<or> ''*'' \<in> allowed_origins self"
    and "upper (req_method req) \<in> allowed_methods self"
    and "upper (req_method req) \<noteq> req_method req"
  shows "(\<forall>m \<in> allowed_methods self. upper m = m)
         \<and> req_method req \<notin> allowed_methods self
         \<and> process_request self req = Some HTTPUnauthorized"
proof -
  have u: "\<forall>m \<in> allowed_methods self. upper m = m"
    using allowed_methods_upper [OF assms(1)] by blast
  with assms(6) have "req_method req \<notin> allowed_methods self" by blast
  with u assms(2,3,4) show ?thesis
    by (auto simp: process_request_def)
qed

theorem process_request_method_case_sensitive_witness:
  "upper ''get'' \<in> allowed_methods default_policy
   \<and> ''get'' \<notin> allowed_methods default_policy
   \<and> process_request default_policy (origin_request ''http://x.example'' ''get'')
       = Some HTTPUnauthorized"
  using process_request_method_case_sensitive [OF init_default,
      of "origin_request ''http://x.example'' ''get''" "''http://x.example''"]
  by (simp add: origin_request_def default_policy_def upper_get)

lemma untidy_merged:
  "merged untidy_kwargs ''allow_origins''
     = ''  http://b.example'' @ [CHR 0x09] @ ''http://a.example   http://b.example ''"
  "merged untidy_kwargs ''allow_methods'' = '' get ,Post''"
  "merged untidy_kwargs ''max_age'' = ''60''"
  "merged untidy_kwargs ''allow_headers'' = ''Origin, Content-type, Accept, X-Auth-Token''"
  "merged untidy_kwargs ''expose_headers'' = ''etag, x-timestamp, x-trans-id, vary''"
  "merged untidy_kwargs ''allow_credentials'' = ''false''"
  by (simp_all add: merged_def untidy_kwargs_def default_value_def)

lemma untidy_origins:
  "split_ws (''  http://b.example'' @ [CHR 0x09] @ ''http://a.example   http://b.example '')
     = [''http://b.example'', ''http://a.example'', ''http://b.example'']"
  by code_simp

lemma untidy_methods:
  "split_sep (CHR '','') '' get ,Post'' = ['' get '', ''Post'']"
  "upper (strip '' get '') = ''GET''"
  "upper (strip ''Post'') = ''POST''"
  by code_simp+

section \<open>Construction\<close>

text \<open>
  Claim C7. Construction succeeds for every mapping of option strings. The configuration
  it reads is the default table overridden key by key: each option has the supplied
  value when one is supplied and the default otherwise. \<open>allowed_origins\<close> is the set of
  the whitespace-separated tokens of the merged \<^verbatim>\<open>allow_origins\<close>; \<open>allowed_methods\<close>
  is the set of the comma-separated tokens of the merged \<^verbatim>\<open>allow_methods\<close>, each
  stripped and uppercased; the \<^verbatim>\<open>access-control-allow-origin\<close> entry is the elements of
  \<open>allowed_origins\<close>, each once, in the order the runtime iterates the set, joined with
  single spaces; the other five entries are the
  merged \<^verbatim>\<open>max_age\<close>, \<^verbatim>\<open>allow_methods\<close>, \<^verbatim>\<open>allow_headers\<close>, \<^verbatim>\<open>expose_headers\<close> and
  \<^verbatim>\<open>allow_credentials\<close> values as they are, and there is no seventh entry.
\<close>

theorem init_resolves_configuration:
  assumes "set_iteration iter"
  shows "\<exists>self. init iter kwargs = Inr self
     \<and> (\<forall>k \<in> set option_names. (DEFAULT_CONFIGURATION ++ kwargs) k = Some (merged kwargs k))
     \<and> allowed_origins self = set (split_ws (merged kwargs ''allow_origins''))
     \<and> allowed_methods self =
         (\<lambda>t. upper (strip t)) ` set (split_sep (CHR '','') (merged kwargs ''allow_methods''))
     \<and> cors_headers self ''access-control-allow-origin''
           = Some (join '' '' (iter (allowed_origins self)))
     \<and> (\<exists>xs. set xs = allowed_origins self \<and> distinct xs
           \<and> cors_headers self ''access-control-allow-origin'' = Some (join '' '' xs))
     \<and> cors_headers self ''access-control-max-age'' = Some (merged kwargs ''max_age'')
     \<and> cors_headers self ''access-control-allow-methods'' = Some (merged kwargs ''allow_methods'')
     \<and> cors_headers self ''access-control-allow-headers'' = Some (merged kwargs ''allow_headers'')
     \<and> cors_headers self ''access-control-expose-headers'' = Some (merged kwargs ''expose_headers'')
     \<and> cors_headers self ''access-control-allow-credentials''
           = Some (merged kwargs ''allow_credentials'')
     \<and> dom (cors_headers self) = set cors_header_names"
proof -
  obtain self where i: "init iter kwargs = Inr self"
    using init_total by blast
  have c: "\<forall>k \<in> set option_names. (DEFAULT_CONFIGURATION ++ kwargs) k = Some (merged kwargs k)"
    by (auto simp: conf_lookup default_lookup merged_def split: option.splits)
  have "finite (allowed_origins self)"
    by (simp add: allowed_origins_of_init [OF i])
  with assms have e: "set (iter (allowed_origins self)) = allowed_origins self
      \<and> distinct (iter (allowed_origins self))"
    by (simp add: set_iteration_def)
  have h: "cors_headers self ''access-control-allow-origin''
             = Some (join '' '' (iter (allowed_origins self)))"
    by (simp add: cors_headers_of_init [OF i])
  from e h have x: "\<exists>xs. set xs = allowed_origins self \<and> distinct xs
           \<and> cors_headers self ''access-control-allow-origin'' = Some (join '' '' xs)"
    by blast
  have r: "cors_headers self ''access-control-max-age'' = Some (merged kwargs ''max_age'')"
    "cors_headers self ''access-control-allow-methods'' = Some (merged kwargs ''allow_methods'')"
    "cors_headers self ''access-control-allow-headers'' = Some (merged kwargs ''allow_headers'')"
    "cors_headers self ''access-control-expose-headers'' = Some (merged kwargs ''expose_headers'')"
    "cors_headers self ''access-control-allow-credentials''
           = Some (merged kwargs ''allow_credentials'')"
    by (simp_all add: cors_headers_of_init [OF i])
  from i c h x r allowed_origins_of_init [OF i] allowed_methods_of_init [OF i]
    dom_cors_headers [OF i]
  show ?thesis by blast
qed

theorem init_resolves_configuration_witness:
  "set_iteration sorted_iteration
   \<and> (\<exists>self. init sorted_iteration untidy_kwargs = Inr self
         \<and> allowed_origins self = {''http://a.example'', ''http://b.example''}
         \<and> allowed_methods self = {''GET'', ''POST''}
         \<and> cors_headers self ''access-control-allow-origin''
               = Some ''http://a.example http://b.example''
         \<and> cors_headers self ''access-control-max-age'' = Some ''60''
         \<and> cors_headers self ''access-control-allow-methods'' = Some '' get ,Post''
         \<and> cors_headers self ''access-control-allow-headers''
               = Some ''Origin, Content-type, Accept, X-Auth-Token''
         \<and> cors_headers self ''access-control-expose-headers''
               = Some ''etag, x-timestamp, x-trans-id, vary''
         \<and> cors_headers self ''access-control-allow-credentials'' = Some ''false'')"
proof -
  obtain self where s: "init sorted_iteration untidy_kwargs = Inr self"
    and o: "allowed_origins self = set (split_ws (merged untidy_kwargs ''allow_origins''))"
    and m: "allowed_methods self =
         (\<lambda>t. upper (strip t)) ` set (split_sep (CHR '','') (merged untidy_kwargs ''allow_methods''))"
    and j: "cors_headers self ''access-control-allow-origin''
           = Some (join '' '' (sorted_iteration (allowed_origins self)))"
    and r: "cors_headers self ''access-control-max-age'' = Some (merged untidy_kwargs ''max_age'')"
      "cors_headers self ''access-control-allow-methods''
         = Some (merged untidy_kwargs ''allow_methods'')"
      "cors_headers self ''access-control-allow-headers''
         = Some (merged untidy_kwargs ''allow_headers'')"
      "cors_headers self ''access-control-expose-headers''
         = Some (merged untidy_kwargs ''expose_headers'')"
      "cors_headers self ''access-control-allow-credentials''
         = Some (merged untidy_kwargs ''allow_credentials'')"
    using init_resolves_configuration [OF set_iteration_sorted, of untidy_kwargs] by blast
  have o': "allowed_origins self = {''http://a.example'', ''http://b.example''}"
    unfolding o untidy_merged untidy_origins by auto
  have m': "allowed_methods self = {''GET'', ''POST''}"
    unfolding m untidy_merged untidy_methods by (simp add: untidy_methods)
  have j': "cors_headers self ''access-control-allow-origin''
               = Some ''http://a.example http://b.example''"
    unfolding j o' by (simp add: sorted_iteration_def scenario_sorted)
  from s o' m' j' r set_iteration_sorted show ?thesis
    unfolding untidy_merged by blast
qed

text \<open>
  Claim C8, as stated, at a concrete runtime: the scenario's configuration, a request with
  origin \<^verbatim>\<open>http://a.example\<close> and method \<^verbatim>\<open>GET\<close>, and a set iteration that yields
  \<^verbatim>\<open>http://b.example\<close> first. The header is then \<^verbatim>\<open>http://b.example http://a.example\<close>,
  not the string of the claim.
\<close>

theorem scenario_origin_header_other_order:
  "set_iteration reversed_iteration
   \<and> init reversed_iteration scenario_kwargs
       = Inr (scenario_policy ''http://b.example http://a.example'')
   \<and> headers (origin_request ''http://a.example'' ''GET'') ''Origin'' = Some ''http://a.example''
   \<and> req_method (origin_request ''http://a.example'' ''GET'') = ''GET''
   \<and> resp_headers (process_response (scenario_policy ''http://b.example http://a.example'')
        (origin_request ''http://a.example'' ''GET'')
        (app_response (Some (origin_request ''http://a.example'' ''GET''))))
        ''access-control-allow-origin''
       = Some ''http://b.example http://a.example''
   \<and> Some ''http://b.example http://a.example'' \<noteq> Some ''http://a.example http://b.example''"
  by (simp add: set_iteration_reversed init_scenario_reversed origin_request_def
      app_response_def process_response_def scenario_policy_def)

text \<open>
  Claim C8, amended. For the scenario's configuration and a request with origin
  \<^verbatim>\<open>http://a.example\<close> and method \<^verbatim>\<open>GET\<close>, \<^verbatim>\<open>process_request\<close> passes the request on,
  and \<^verbatim>\<open>process_response\<close> sets \<^verbatim>\<open>access-control-allow-origin\<close> on the request's
  response to the two configured origins joined by one space, in the order in which the
  set is iterated: \<^verbatim>\<open>http://a.example http://b.example\<close> or
  \<^verbatim>\<open>http://b.example http://a.example\<close>.
\<close>

theorem scenario_pass_and_origin_header:
  assumes "set_iteration iter"
    and "init iter scenario_kwargs = Inr self"
    and "headers req ''Origin'' = Some ''http://a.example''"
    and "req_method req = ''GET''"
    and "resp_request resp = Some req"
  shows "process_request self req = None
     \<and> resp_headers (process_response self req resp) ''access-control-allow-origin''
          = Some (join '' '' (iter {''http://a.example'', ''http://b.example''}))
     \<and> (iter {''http://a.example'', ''http://b.example''}
          = [''http://a.example'', ''http://b.example'']
        \<or> iter {''http://a.example'', ''http://b.example''}
          = [''http://b.example'', ''http://a.example''])
     \<and> resp_headers (process_response self req resp) ''access-control-allow-origin''
          \<in> {Some ''http://a.example http://b.example'',
              Some ''http://b.example http://a.example''}"
proof -
  have m: "merged scenario_kwargs ''allow_origins'' = ''http://a.example http://b.example''"
    "merged scenario_kwargs ''allow_methods'' = ''GET,POST''"
    by (simp_all add: merged_def scenario_kwargs_def)
  have o: "allowed_origins self = {''http://a.example'', ''http://b.example''}"
    by (simp add: allowed_origins_of_init [OF assms(2)] m scenario_origins)
  have a: "allowed_methods self = {''GET'', ''POST''}"
    by (simp add: allowed_methods_of_init [OF assms(2)] m upper_strip_tokens)
  have p: "process_request self req = None"
    using assms(3,4) by (simp add: process_request_def o a)
  have h: "resp_headers (process_response self req resp) ''access-control-allow-origin''
          = Some (join '' '' (iter {''http://a.example'', ''http://b.example''}))"
    using assms(3,5) by (simp add: process_response_def cors_headers_of_init [OF assms(2)] o)
  have "set (iter {''http://a.example'', ''http://b.example''})
          = {''http://a.example'', ''http://b.example''}
        \<and> distinct (iter {''http://a.example'', ''http://b.example''})"
    using assms(1) by (simp add: set_iteration_def)
  then have t: "iter {''http://a.example'', ''http://b.example''}
          = [''http://a.example'', ''http://b.example'']
        \<or> iter {''http://a.example'', ''http://b.example''}
          = [''http://b.example'', ''http://a.example'']"
    by (intro two_element_orders) simp_all
  from t h have "resp_headers (process_response self req resp) ''access-control-allow-origin''
          \<in> {Some ''http://a.example http://b.example'',
              Some ''http://b.example http://a.example''}"
    by auto
  with p h t show ?thesis by blast
qed

theorem scenario_pass_and_origin_header_witness:
  "process_request (scenario_policy ''http://a.example http://b.example'')
       (origin_request ''http://a.example'' ''GET'') = None
   \<and> resp_headers (process_response (scenario_policy ''http://a.example http://b.example'')
        (origin_request ''http://a.example'' ''GET'')
        (app_response (Some (origin_request ''http://a.example'' ''GET''))))
        ''access-control-allow-origin''
       = Some ''http://a.example http://b.example''"
  using scenario_pass_and_origin_header [OF set_iteration_sorted init_scenario_sorted,
      of "origin_request ''http://a.example'' ''GET''"
         "app_response (Some (origin_request ''http://a.example'' ''GET''))"]
  by (simp add: origin_request_def app_response_def sorted_iteration_def scenario_sorted)

section \<open>The boolean coercion\<close>

text \<open>
  Claim C9. Without \<open>strict\<close>, \<open>bool_from_string\<close> always returns a value: true exactly
  when the stripped, lowercased input is one of \<^verbatim>\<open>1 t true on y yes\<close>. In either mode
  those six tokens give true and \<^verbatim>\<open>0 f false off n no\<close> give false. It raises if and
  only if \<open>strict\<close> is set and the stripped, lowercased input is in neither token set.
  The constructor calls it without \<open>strict\<close> on the merged \<^verbatim>\<open>hijack_options\<close> and
  never raises.
\<close>

theorem bool_from_string_total:
  "bool_from_string s False
      = Inr (lower (strip s) \<in> {''1'', ''t'', ''true'', ''on'', ''y'', ''yes''})
   \<and> (lower (strip s) \<in> {''1'', ''t'', ''true'', ''on'', ''y'', ''yes''}
        \<longrightarrow> bool_from_string s strict = Inr True)
   \<and> (lower (strip s) \<in> {''0'', ''f'', ''false'', ''off'', ''n'', ''no''}
        \<longrightarrow> bool_from_string s strict = Inr False)
   \<and> ((\<exists>e. bool_from_string s strict = Inl e) \<longleftrightarrow>
        strict \<and> lower (strip s) \<notin> {''1'', ''t'', ''true'', ''on'', ''y'', ''yes''}
               \<and> lower (strip s) \<notin> {''0'', ''f'', ''false'', ''off'', ''n'', ''no''})
   \<and> (\<exists>self. init iter kwargs = Inr self
         \<and> bool_from_string (merged kwargs ''hijack_options'') False
             = Inr (hijack_options self))"
proof -
  have i: "\<exists>self. init iter kwargs = Inr self
         \<and> bool_from_string (merged kwargs ''hijack_options'') False
             = Inr (hijack_options self)"
    by (simp add: init_eq bool_from_string_nonstrict)
  have b: "bool_from_string s False
      = Inr (lower (strip s) \<in> {''1'', ''t'', ''true'', ''on'', ''y'', ''yes''})"
    by (simp add: bool_from_string_def Let_def TRUE_STRINGS_def)
  have t: "lower (strip s) \<in> {''1'', ''t'', ''true'', ''on'', ''y'', ''yes''}
        \<longrightarrow> bool_from_string s strict = Inr True"
    by (simp add: bool_from_string_def Let_def TRUE_STRINGS_def)
  have f: "lower (strip s) \<in> {''0'', ''f'', ''false'', ''off'', ''n'', ''no''}
        \<longrightarrow> bool_from_string s strict = Inr False"
    by (auto simp: bool_from_string_def Let_def TRUE_STRINGS_def FALSE_STRINGS_def)
  have e: "(\<exists>e. bool_from_string s strict = Inl e) \<longleftrightarrow>
        strict \<and> lower (strip s) \<notin> {''1'', ''t'', ''true'', ''on'', ''y'', ''yes''}
               \<and> lower (strip s) \<notin> {''0'', ''f'', ''false'', ''off'', ''n'', ''no''}"
    by (simp add: bool_from_string_def Let_def TRUE_STRINGS_def FALSE_STRINGS_def)
  from b t f e i show ?thesis by blast
qed

theorem bool_from_string_total_witness:
  "bool_from_string '' YeS '' True = Inr True
   \<and> bool_from_string ''Off'' True = Inr False
   \<and> bool_from_string ''maybe'' False = Inr False
   \<and> (\<exists>e. bool_from_string ''maybe'' True = Inl e)
   \<and> \<not> (\<exists>e. bool_from_string ''maybe'' False = Inl e)"
  using bool_from_string_total [of "'' YeS ''" True]
    bool_from_string_total [of "''Off''" True]
    bool_from_string_total [of "''maybe''" False]
    bool_from_string_total [of "''maybe''" True]
  by (simp add: coercion_examples)

end
